theory Spec2Isabelle
  imports Complex_Main "HOL-Library.Log_Nat"
begin

section \<open>Outcomes of running Python code\<close>

text \<open>
  The calculator of \<^verbatim>\<open>src/main.py\<close> is \<^verbatim>\<open>safe_eval_expr\<close>: it strips the input, hands it to
  Python's \<^verbatim>\<open>ast.parse\<close> and walks the resulting tree with the nested function
  \<^verbatim>\<open>_eval\<close>, applying the functions of the \<^verbatim>\<open>operator\<close> module listed in
  \<^verbatim>\<open>_ALLOWED_OPERATORS\<close>. The tree walk and the dispatcher \<^verbatim>\<open>chatbot_response\<close> are
  translated from the source. The Python built-ins the source calls (integer and float
  arithmetic, \<^verbatim>\<open>ast.parse\<close>, \<^verbatim>\<open>str.strip\<close>, \<^verbatim>\<open>str.lower\<close>, \<^verbatim>\<open>re\<close>) are modelled after
  CPython 3.8 to 3.13. Where the model does not determine what CPython does (results of
  the C library's \<^verbatim>\<open>pow\<close>, syntax outside the modelled fragment, non-ASCII text) the
  outcome is \<open>Unmodelled\<close>: the model then says nothing about the run.
  Exhaustion of the interpreter's stack or memory is not modelled.
\<close>

datatype operator =
  Add | Sub | Mult | Div | Pow_op | Mod | FloorDiv
  | MatMult | LShift | RShift | BitOr | BitXor | BitAnd

datatype unaryop = UAdd | USub | Not_op | Invert

datatype node_class = Name | Call | Attribute | Tuple

text \<open>
  The messages of the \<^verbatim>\<open>ValueError\<close>s that \<^verbatim>\<open>safe_eval_expr\<close> raises itself. The text
  that Python's \<^verbatim>\<open>SyntaxError\<close> contributes to "Invalid expression: ..." is left out.
\<close>

datatype value_error =
  Empty_expression
  | Invalid_expression
  | Only_numeric_constants
  | Operator_not_supported operator
  | Unary_operator_not_supported unaryop
  | Unsupported_expression_type node_class

datatype py_exc =
  ValueError value_error
  | ZeroDivisionError
  | OverflowError
  | TypeError
  | SyntaxError

datatype 'a outcome = Returns 'a | Raises py_exc | Unmodelled

section \<open>Python floats: IEEE 754 binary64\<close>

text \<open>
  \<open>Fin m e\<close> is the double \<open>m * 2 ^ e\<close>, kept in lowest terms: \<open>m\<close> is odd, or \<open>m = 0\<close>
  and \<open>e = 0\<close> for \<open>+0.0\<close>. \<open>NegZero\<close> is \<open>-0.0\<close>.
\<close>

datatype pyfloat = Fin int int | NegZero | PInf | NInf | NaN

function norm_fin :: "int \<Rightarrow> int \<Rightarrow> pyfloat" where
  "norm_fin m e =
     (if m = 0 then Fin 0 0
      else if even m then norm_fin (m div 2) (e + 1)
      else Fin m e)"
  by pat_completeness auto
termination
  by (relation "measure (\<lambda>(m, e). nat \<bar>m\<bar>)") auto

declare norm_fin.simps [simp del]

text \<open>Round half to even of the quotient \<open>a / b\<close>, for \<open>0 \<le> a\<close> and \<open>0 < b\<close>.\<close>

definition rhe_div :: "int \<Rightarrow> int \<Rightarrow> int" where
  "rhe_div a b =
     (let q = a div b; r = a mod b
      in if 2 * r < b then q
         else if b < 2 * r then q + 1
         else if even q then q else q + 1)"

text \<open>\<open>\<lfloor>log\<^sub>2 (n / d)\<rfloor>\<close> for \<open>0 < n\<close> and \<open>0 < d\<close>.\<close>

definition floor_log2_frac :: "int \<Rightarrow> int \<Rightarrow> int" where
  "floor_log2_frac n d =
     (let k = bitlen n - bitlen d
      in if (if 0 \<le> k then d * 2 ^ nat k \<le> n else d \<le> n * 2 ^ nat (- k))
         then k else k - 1)"

text \<open>
  The double nearest to \<open>n / d\<close> (\<open>0 < n\<close>, \<open>0 < d\<close>) as mantissa and exponent; \<open>None\<close>
  when the rounded value is \<open>2 ^ 1024\<close> or more. Below \<open>2 ^ -1022\<close> the spacing is that of
  the subnormals.
\<close>

definition round64_pos :: "int \<Rightarrow> int \<Rightarrow> (int \<times> int) option" where
  "round64_pos n d =
     (let e = floor_log2_frac n d
      in if 1024 \<le> e then None
         else let p = max e (- 1022) - 52;
                  m = (if 0 \<le> p then rhe_div n (d * 2 ^ nat p)
                       else rhe_div (n * 2 ^ nat (- p)) d)
              in if 2 ^ 53 \<le> m \<and> p = 971 then None else Some (m, p))"

definition round64 :: "int \<Rightarrow> int \<Rightarrow> pyfloat" where
  "round64 n d =
     (if n = 0 then Fin 0 0
      else if 0 < n then
        (case round64_pos n d of
           None \<Rightarrow> PInf
         | Some (m, p) \<Rightarrow> norm_fin m p)
      else
        (case round64_pos (- n) d of
           None \<Rightarrow> NInf
         | Some (m, p) \<Rightarrow> if m = 0 then NegZero else norm_fin (- m) p))"

text \<open>The double nearest to \<open>m * 2 ^ e\<close>.\<close>

definition round64_scaled :: "int \<Rightarrow> int \<Rightarrow> pyfloat" where
  "round64_scaled m e = (if 0 \<le> e then round64 (m * 2 ^ nat e) 1 else round64 m (2 ^ nat (- e)))"

definition is_fzero :: "pyfloat \<Rightarrow> bool" where
  "is_fzero x = (x = Fin 0 0 \<or> x = NegZero)"

definition is_finf :: "pyfloat \<Rightarrow> bool" where
  "is_finf x = (x = PInf \<or> x = NInf)"

fun fsign :: "pyfloat \<Rightarrow> bool" where
  "fsign (Fin m e) = (m < 0)"
| "fsign NegZero = True"
| "fsign PInf = False"
| "fsign NInf = True"
| "fsign NaN = False"

definition fzero :: "bool \<Rightarrow> pyfloat" where
  "fzero neg = (if neg then NegZero else Fin 0 0)"

definition finf :: "bool \<Rightarrow> pyfloat" where
  "finf neg = (if neg then NInf else PInf)"

fun fneg :: "pyfloat \<Rightarrow> pyfloat" where
  "fneg (Fin m e) = (if m = 0 then NegZero else Fin (- m) e)"
| "fneg NegZero = Fin 0 0"
| "fneg PInf = NInf"
| "fneg NInf = PInf"
| "fneg NaN = NaN"

fun fadd :: "pyfloat \<Rightarrow> pyfloat \<Rightarrow> pyfloat" where
  "fadd NaN y = NaN"
| "fadd x NaN = NaN"
| "fadd PInf y = (if y = NInf then NaN else PInf)"
| "fadd NInf y = (if y = PInf then NaN else NInf)"
| "fadd x PInf = PInf"
| "fadd x NInf = NInf"
| "fadd NegZero y = y"
| "fadd x NegZero = x"
| "fadd (Fin m1 e1) (Fin m2 e2) =
     (let e = min e1 e2
      in round64_scaled (m1 * 2 ^ nat (e1 - e) + m2 * 2 ^ nat (e2 - e)) e)"

definition fsub :: "pyfloat \<Rightarrow> pyfloat \<Rightarrow> pyfloat" where
  "fsub x y = fadd x (fneg y)"

fun fmul :: "pyfloat \<Rightarrow> pyfloat \<Rightarrow> pyfloat" where
  "fmul NaN y = NaN"
| "fmul x NaN = NaN"
| "fmul (Fin m1 e1) (Fin m2 e2) =
     (if m1 = 0 \<or> m2 = 0 then fzero ((m1 < 0) \<noteq> (m2 < 0))
      else case round64_scaled (m1 * m2) (e1 + e2) of
             Fin m e \<Rightarrow> if m = 0 then fzero ((m1 < 0) \<noteq> (m2 < 0)) else Fin m e
           | r \<Rightarrow> r)"
| "fmul x y =
     (if is_fzero x \<or> is_fzero y then
        (if is_finf x \<or> is_finf y then NaN else fzero (fsign x \<noteq> fsign y))
      else if is_finf x \<or> is_finf y then finf (fsign x \<noteq> fsign y)
      else NaN)"

fun fdiv :: "pyfloat \<Rightarrow> pyfloat \<Rightarrow> pyfloat" where
  "fdiv NaN y = NaN"
| "fdiv x NaN = NaN"
| "fdiv (Fin m1 e1) (Fin m2 e2) =
     (if m2 = 0 then (if m1 = 0 then NaN else finf (m1 < 0))
      else if m1 = 0 then fzero (m2 < 0)
      else let n = (if m2 < 0 then - m1 else m1); d = \<bar>m2\<bar>; e = e1 - e2
           in case (if 0 \<le> e then round64 (n * 2 ^ nat e) d else round64 n (d * 2 ^ nat (- e))) of
                Fin m e' \<Rightarrow> if m = 0 then fzero ((m1 < 0) \<noteq> (m2 < 0)) else Fin m e'
              | r \<Rightarrow> r)"
| "fdiv x y =
     (if is_finf x then (if is_finf y then NaN else finf (fsign x \<noteq> fsign y))
      else if is_finf y then fzero (fsign x \<noteq> fsign y)
      else if is_fzero y then (if is_fzero x then NaN else finf (fsign x \<noteq> fsign y))
      else fzero (fsign x \<noteq> fsign y))"


text \<open>
  The special cases of CPython's \<^verbatim>\<open>float_pow\<close>; the general case calls the C library's
  \<^verbatim>\<open>pow\<close>, whose rounding the model does not fix. For a negative base and a non-integral
  exponent \<^verbatim>\<open>float_pow\<close> delegates to the complex power, which raises
  \<^verbatim>\<open>OverflowError\<close> when a component of the result is infinite: \<open>complex_pow_finite\<close>
  is a sufficient condition for a finite result (the modulus is below \<open>2 ^ 1023\<close>).
\<close>

datatype pow_result = Pow_float pyfloat | Pow_complex | Pow_zero_division | Pow_libm

fun is_integral :: "pyfloat \<Rightarrow> bool" where
  "is_integral (Fin m e) = (m = 0 \<or> 0 \<le> e)"
| "is_integral NegZero = True"
| "is_integral x = False"

fun is_odd_integer :: "pyfloat \<Rightarrow> bool" where
  "is_odd_integer (Fin m e) = (m \<noteq> 0 \<and> e = 0)"
| "is_odd_integer x = False"

fun fabs :: "pyfloat \<Rightarrow> pyfloat" where
  "fabs (Fin m e) = Fin \<bar>m\<bar> e"
| "fabs NegZero = Fin 0 0"
| "fabs NInf = PInf"
| "fabs x = x"

text \<open>\<open>1.0 < x\<close> for a finite or infinite \<open>x\<close> that is not negative.\<close>

fun above_one :: "pyfloat \<Rightarrow> bool" where
  "above_one (Fin m e) = (if 0 \<le> e then 1 < m * 2 ^ nat e else 2 ^ nat (- e) < m)"
| "above_one PInf = True"
| "above_one x = False"

fun complex_pow_finite :: "pyfloat \<Rightarrow> pyfloat \<Rightarrow> bool" where
  "complex_pow_finite (Fin m e) (Fin m2 e2) =
     (let c = (if 0 \<le> e2 then \<bar>m2\<bar> * 2 ^ nat e2 else \<bar>m2\<bar> div 2 ^ nat (- e2) + 1);
          k = bitlen \<bar>m\<bar> + e
      in if 0 < m2 then k \<le> 0 \<or> k * c \<le> 1023
         else 1 \<le> k \<or> (1 - k) * c \<le> 1023)"
| "complex_pow_finite x y = False"

definition float_pow :: "pyfloat \<Rightarrow> pyfloat \<Rightarrow> pow_result" where
  "float_pow iv iw =
     (if is_fzero iw then Pow_float (Fin 1 0)
      else if iv = NaN then Pow_float NaN
      else if iw = NaN then Pow_float (if iv = Fin 1 0 then Fin 1 0 else NaN)
      else if is_finf iw then
        (if fabs iv = Fin 1 0 then Pow_float (Fin 1 0)
         else if (iw = PInf) = above_one (fabs iv) then Pow_float PInf
         else Pow_float (Fin 0 0))
      else if is_finf iv then
        (if \<not> fsign iw then Pow_float (if is_odd_integer iw then iv else PInf)
         else Pow_float (if is_odd_integer iw then fzero (fsign iv) else Fin 0 0))
      else if is_fzero iv then
        (if fsign iw then Pow_zero_division
         else Pow_float (if is_odd_integer iw then iv else Fin 0 0))
      else if fsign iv \<and> \<not> is_integral iw then
        (if complex_pow_finite iv iw then Pow_complex else Pow_libm)
      else if fabs iv = Fin 1 0 then
        Pow_float (if fsign iv \<and> is_odd_integer iw then Fin (- 1) 0 else Fin 1 0)
      else Pow_libm)"

section \<open>Python numbers and the functions of the operator module\<close>

text \<open>
  The results that \<^verbatim>\<open>_eval\<close> can return: \<^verbatim>\<open>int\<close>, \<^verbatim>\<open>bool\<close> (a subclass of \<^verbatim>\<open>int\<close>),
  \<^verbatim>\<open>float\<close>, and \<^verbatim>\<open>complex\<close>, which only \<^verbatim>\<open>operator.pow\<close> produces and whose
  components are computed by the C library and not modelled.
\<close>

datatype pyvalue = VInt int | VBool bool | VFloat pyfloat | VComplex

datatype num = NI int | NF pyfloat | NC

fun num_of :: "pyvalue \<Rightarrow> num" where
  "num_of (VInt n) = NI n"
| "num_of (VBool b) = NI (if b then 1 else 0)"
| "num_of (VFloat x) = NF x"
| "num_of VComplex = NC"

text \<open>
  Conversion of an operand to a C double: \<^verbatim>\<open>OverflowError\<close> ("int too large to convert to
  float") when the integer rounds to \<open>2 ^ 1024\<close> or beyond.
\<close>

fun to_double :: "num \<Rightarrow> pyfloat outcome" where
  "to_double (NI n) = (let r = round64 n 1 in if is_finf r then Raises OverflowError else Returns r)"
| "to_double (NF x) = Returns x"
| "to_double NC = Unmodelled"

definition float_binop ::
  "(pyfloat \<Rightarrow> pyfloat \<Rightarrow> pyvalue outcome) \<Rightarrow> num \<Rightarrow> num \<Rightarrow> pyvalue outcome" where
  "float_binop f a b =
     (case to_double a of
        Returns x \<Rightarrow> (case to_double b of Returns y \<Rightarrow> f x y | Raises e \<Rightarrow> Raises e | Unmodelled \<Rightarrow> Unmodelled)
      | Raises e \<Rightarrow> Raises e
      | Unmodelled \<Rightarrow> Unmodelled)"

text \<open>An arithmetic operation of a complex number and the operand \<open>b\<close> that cannot fail
  once \<open>b\<close> is converted.\<close>

definition complex_with :: "num \<Rightarrow> pyvalue outcome" where
  "complex_with b =
     (case b of
        NI n \<Rightarrow> (case to_double (NI n) of Raises e \<Rightarrow> Raises e | _ \<Rightarrow> Returns VComplex)
      | _ \<Rightarrow> Returns VComplex)"

definition operator_add :: "pyvalue \<Rightarrow> pyvalue \<Rightarrow> pyvalue outcome" where
  "operator_add a b =
     (case (num_of a, num_of b) of
        (NI x, NI y) \<Rightarrow> Returns (VInt (x + y))
      | (NC, y) \<Rightarrow> complex_with y
      | (x, NC) \<Rightarrow> complex_with x
      | (x, y) \<Rightarrow> float_binop (\<lambda>u v. Returns (VFloat (fadd u v))) x y)"

definition operator_sub :: "pyvalue \<Rightarrow> pyvalue \<Rightarrow> pyvalue outcome" where
  "operator_sub a b =
     (case (num_of a, num_of b) of
        (NI x, NI y) \<Rightarrow> Returns (VInt (x - y))
      | (NC, y) \<Rightarrow> complex_with y
      | (x, NC) \<Rightarrow> complex_with x
      | (x, y) \<Rightarrow> float_binop (\<lambda>u v. Returns (VFloat (fsub u v))) x y)"

definition operator_mul :: "pyvalue \<Rightarrow> pyvalue \<Rightarrow> pyvalue outcome" where
  "operator_mul a b =
     (case (num_of a, num_of b) of
        (NI x, NI y) \<Rightarrow> Returns (VInt (x * y))
      | (NC, y) \<Rightarrow> complex_with y
      | (x, NC) \<Rightarrow> complex_with x
      | (x, y) \<Rightarrow> float_binop (\<lambda>u v. Returns (VFloat (fmul u v))) x y)"

text \<open>
  True division of two integers is the correctly rounded quotient (\<^verbatim>\<open>OverflowError\<close>
  when it is too large for a float); with a float operand both are converted first and
  the divisor is compared with zero afterwards.
\<close>

definition operator_truediv :: "pyvalue \<Rightarrow> pyvalue \<Rightarrow> pyvalue outcome" where
  "operator_truediv a b =
     (case (num_of a, num_of b) of
        (NI x, NI y) \<Rightarrow>
          (if y = 0 then Raises ZeroDivisionError
           else if x = 0 then Returns (VFloat (fzero (y < 0)))
           else let r = round64 (if y < 0 then - x else x) \<bar>y\<bar>
                in if is_finf r then Raises OverflowError else Returns (VFloat r))
      | (NC, NC) \<Rightarrow> Unmodelled
      | (NC, NI y) \<Rightarrow>
          (case to_double (NI y) of
             Raises e \<Rightarrow> Raises e
           | _ \<Rightarrow> if y = 0 then Raises ZeroDivisionError else Returns VComplex)
      | (NC, NF y) \<Rightarrow> (if is_fzero y then Raises ZeroDivisionError else Returns VComplex)
      | (NI x, NC) \<Rightarrow> (case to_double (NI x) of Raises e \<Rightarrow> Raises e | _ \<Rightarrow> Unmodelled)
      | (NF x, NC) \<Rightarrow> Unmodelled
      | (x, y) \<Rightarrow>
          float_binop
            (\<lambda>u v. if is_fzero v then Raises ZeroDivisionError else Returns (VFloat (fdiv u v))) x y)"

text \<open>
  Floor division and modulo of integers round the quotient down, as \<open>div\<close> and \<open>mod\<close> on
  \<open>int\<close> do. On floats the source reaches CPython's \<^verbatim>\<open>float_floor_div\<close> and
  \<^verbatim>\<open>float_rem\<close>, of which the model keeps the conversion and the test of the divisor.
\<close>

definition operator_floordiv :: "pyvalue \<Rightarrow> pyvalue \<Rightarrow> pyvalue outcome" where
  "operator_floordiv a b =
     (case (num_of a, num_of b) of
        (NI x, NI y) \<Rightarrow> (if y = 0 then Raises ZeroDivisionError else Returns (VInt (x div y)))
      | (NC, y) \<Rightarrow> Raises TypeError
      | (x, NC) \<Rightarrow> Raises TypeError
      | (x, y) \<Rightarrow>
          float_binop (\<lambda>u v. if is_fzero v then Raises ZeroDivisionError else Unmodelled) x y)"

definition operator_mod :: "pyvalue \<Rightarrow> pyvalue \<Rightarrow> pyvalue outcome" where
  "operator_mod a b =
     (case (num_of a, num_of b) of
        (NI x, NI y) \<Rightarrow> (if y = 0 then Raises ZeroDivisionError else Returns (VInt (x mod y)))
      | (NC, y) \<Rightarrow> Raises TypeError
      | (x, NC) \<Rightarrow> Raises TypeError
      | (x, y) \<Rightarrow>
          float_binop (\<lambda>u v. if is_fzero v then Raises ZeroDivisionError else Unmodelled) x y)"

definition pow_outcome :: "pyfloat \<Rightarrow> pyfloat \<Rightarrow> pyvalue outcome" where
  "pow_outcome u v =
     (case float_pow u v of
        Pow_float r \<Rightarrow> Returns (VFloat r)
      | Pow_complex \<Rightarrow> Returns VComplex
      | Pow_zero_division \<Rightarrow> Raises ZeroDivisionError
      | Pow_libm \<Rightarrow> Unmodelled)"

definition operator_pow :: "pyvalue \<Rightarrow> pyvalue \<Rightarrow> pyvalue outcome" where
  "operator_pow a b =
     (case (num_of a, num_of b) of
        (NI x, NI y) \<Rightarrow>
          (if 0 \<le> y then Returns (VInt (x ^ nat y)) else float_binop pow_outcome (NI x) (NI y))
      | (NC, y) \<Rightarrow> Unmodelled
      | (x, NC) \<Rightarrow> Unmodelled
      | (x, y) \<Rightarrow> float_binop pow_outcome x y)"

definition operator_pos :: "pyvalue \<Rightarrow> pyvalue outcome" where
  "operator_pos a =
     (case num_of a of NI x \<Rightarrow> Returns (VInt x) | NF x \<Rightarrow> Returns (VFloat x) | NC \<Rightarrow> Returns VComplex)"

definition operator_neg :: "pyvalue \<Rightarrow> pyvalue outcome" where
  "operator_neg a =
     (case num_of a of
        NI x \<Rightarrow> Returns (VInt (- x))
      | NF x \<Rightarrow> Returns (VFloat (fneg x))
      | NC \<Rightarrow> Returns VComplex)"

section \<open>The syntax tree and its evaluation\<close>

text \<open>
  The nodes of Python's \<^verbatim>\<open>ast\<close> module as far as \<^verbatim>\<open>_eval\<close> tells them apart: it
  descends into \<^verbatim>\<open>Expression\<close>, \<^verbatim>\<open>BinOp\<close> and \<^verbatim>\<open>UnaryOp\<close>, reads the value of a
  \<^verbatim>\<open>Constant\<close>, and of any other node only takes the class for its error message.
\<close>

datatype constant_value =
  CInt int | CFloat pyfloat | CImag pyfloat | CStr string | CBool bool | CNone | CEllipsis

datatype node =
  Expression node
  | Constant constant_value
  | BinOp node operator node
  | UnaryOp unaryop node
  | Other node_class

text \<open>
  The dictionary \<^verbatim>\<open>_ALLOWED_OPERATORS\<close> (lines 53 to 63). Its keys are the classes of
  binary and of unary operators; a \<^verbatim>\<open>BinOp\<close> node carries one of the former, a
  \<^verbatim>\<open>UnaryOp\<close> node one of the latter, so the model keeps the two kinds of entries apart.
\<close>

definition ALLOWED_OPERATORS :: "(operator \<times> (pyvalue \<Rightarrow> pyvalue \<Rightarrow> pyvalue outcome)) list" where
  "ALLOWED_OPERATORS =
     [(Add, operator_add),
      (Sub, operator_sub),
      (Mult, operator_mul),
      (Div, operator_truediv),
      (Pow_op, operator_pow),
      (Mod, operator_mod),
      (FloorDiv, operator_floordiv)]"

definition ALLOWED_UNARY_OPERATORS :: "(unaryop \<times> (pyvalue \<Rightarrow> pyvalue outcome)) list" where
  "ALLOWED_UNARY_OPERATORS = [(UAdd, operator_pos), (USub, operator_neg)]"

text \<open>
  The nested function \<^verbatim>\<open>_eval\<close> (lines 107 to 130). The branch for \<^verbatim>\<open>ast.Num\<close> is
  unreachable from Python 3.8 on: \<^verbatim>\<open>ast.parse\<close> builds \<^verbatim>\<open>Constant\<close> nodes only, and a
  node is an instance of the deprecated \<^verbatim>\<open>ast.Num\<close> only if it is a \<^verbatim>\<open>Constant\<close>.
\<close>

fun eval_node :: "node \<Rightarrow> pyvalue outcome" where
  "eval_node (Expression body) = eval_node body"
| "eval_node (Constant c) =
     (case c of
        CInt n \<Rightarrow> Returns (VInt n)
      | CBool b \<Rightarrow> Returns (VBool b)
      | CFloat x \<Rightarrow> Returns (VFloat x)
      | _ \<Rightarrow> Raises (ValueError Only_numeric_constants))"
| "eval_node (BinOp left op right) =
     (case map_of ALLOWED_OPERATORS op of
        None \<Rightarrow> Raises (ValueError (Operator_not_supported op))
      | Some f \<Rightarrow>
          (case eval_node left of
             Returns l \<Rightarrow>
               (case eval_node right of
                  Returns r \<Rightarrow> f l r
                | Raises e \<Rightarrow> Raises e
                | Unmodelled \<Rightarrow> Unmodelled)
           | Raises e \<Rightarrow> Raises e
           | Unmodelled \<Rightarrow> Unmodelled))"
| "eval_node (UnaryOp op operand) =
     (case map_of ALLOWED_UNARY_OPERATORS op of
        None \<Rightarrow> Raises (ValueError (Unary_operator_not_supported op))
      | Some f \<Rightarrow>
          (case eval_node operand of
             Returns v \<Rightarrow> f v
           | Raises e \<Rightarrow> Raises e
           | Unmodelled \<Rightarrow> Unmodelled))"
| "eval_node (Other c) = Raises (ValueError (Unsupported_expression_type c))"


section \<open>Python's tokenizer on one line of ASCII text\<close>

text \<open>
  \<^verbatim>\<open>ast.parse(expr, mode="eval")\<close> is Python's own parser, which the source calls and does
  not define. The model follows CPython's tokenizer and expression grammar on the
  following fragment: one line of printable ASCII (with tabs and form feeds); numeric
  literals of every form; identifiers; string literals in single or double quotes
  without prefix and without backslash; the arithmetic and bitwise operators,
  parentheses, period and comma. A string holds the code points of a Python \<^verbatim>\<open>str\<close>.
  On every other input the model answers \<open>Unmodelled\<close>.
\<close>

definition bind_outcome :: "'a outcome \<Rightarrow> ('a \<Rightarrow> 'b outcome) \<Rightarrow> 'b outcome" where
  "bind_outcome m f = (case m of Returns v \<Rightarrow> f v | Raises e \<Rightarrow> Raises e | Unmodelled \<Rightarrow> Unmodelled)"

datatype token = NUMBER constant_value | NAME string | STRING string | OP string

definition is_digit :: "char \<Rightarrow> bool" where
  "is_digit c = (c \<in> set ''0123456789'')"

definition is_hexdigit :: "char \<Rightarrow> bool" where
  "is_hexdigit c = (c \<in> set ''0123456789abcdefABCDEF'')"

definition is_octdigit :: "char \<Rightarrow> bool" where
  "is_octdigit c = (c \<in> set ''01234567'')"

definition is_bindigit :: "char \<Rightarrow> bool" where
  "is_bindigit c = (c \<in> set ''01'')"

definition is_ident_start :: "char \<Rightarrow> bool" where
  "is_ident_start c = (c \<in> set ''abcdefghijklmnopqrstuvwxyzABCDEFGHIJKLMNOPQRSTUVWXYZ_'')"

definition is_ident_char :: "char \<Rightarrow> bool" where
  "is_ident_char c = (is_ident_start c \<or> is_digit c)"

definition is_blank :: "char \<Rightarrow> bool" where
  "is_blank c = (c = CHR '' '' \<or> c = CHR 0x09 \<or> c = CHR 0x0C)"

definition modelled_char :: "char \<Rightarrow> bool" where
  "modelled_char c = (c = CHR 0x09 \<or> c = CHR 0x0C \<or> (32 \<le> (of_char c :: nat) \<and> (of_char c :: nat) \<le> 126))"

text \<open>The value of a digit in any radix up to sixteen.\<close>

definition digit_val :: "char \<Rightarrow> int" where
  "digit_val c =
     (let n = (of_char c :: nat)
      in if n < 58 then int n - 48 else if n < 71 then int n - 55 else int n - 87)"

definition digits_value :: "int \<Rightarrow> string \<Rightarrow> int" where
  "digits_value base ds = foldl (\<lambda>a c. a * base + digit_val c) 0 ds"

text \<open>
  A run of digits in which single underscores separate digits (CPython's
  \<^verbatim>\<open>tok_decimal_tail\<close>): the digits read so far, without the underscores, and the rest
  of the line; \<open>None\<close> when an underscore is not followed by a digit.
\<close>

fun digitpart :: "(char \<Rightarrow> bool) \<Rightarrow> string \<Rightarrow> string \<Rightarrow> (string \<times> string) option" where
  "digitpart isd acc [] = Some (acc, [])"
| "digitpart isd acc (c # cs) =
     (if isd c then digitpart isd (acc @ [c]) cs
      else if c = CHR ''_'' then
        (case cs of
           [] \<Rightarrow> None
         | d # ds \<Rightarrow> if isd d then digitpart isd (acc @ [d]) ds else None)
      else Some (acc, c # cs))"

text \<open>
  What may follow a numeric literal (CPython's \<^verbatim>\<open>verify_end_of_number\<close>): a character
  that could continue an identifier is an error, unless it starts one of the keywords
  \<^verbatim>\<open>and\<close>, \<^verbatim>\<open>else\<close>, \<^verbatim>\<open>for\<close>, \<^verbatim>\<open>if\<close>, \<^verbatim>\<open>in\<close>, \<^verbatim>\<open>is\<close>, \<^verbatim>\<open>not\<close>, \<^verbatim>\<open>or\<close>, which the
  model leaves aside.
\<close>

definition number_end :: "string \<Rightarrow> 'a \<Rightarrow> 'a outcome" where
  "number_end rest v =
     (case rest of
        [] \<Rightarrow> Returns v
      | c # cs \<Rightarrow>
          if c \<in> set ''aefino'' then Unmodelled
          else if is_ident_char c then Raises SyntaxError
          else Returns v)"

text \<open>
  Integer literals with a radix prefix: after \<^verbatim>\<open>0x\<close>, \<^verbatim>\<open>0o\<close> or \<^verbatim>\<open>0b\<close> one underscore
  may precede the first digit.
\<close>

definition radix_literal :: "(char \<Rightarrow> bool) \<Rightarrow> int \<Rightarrow> string \<Rightarrow> (constant_value \<times> string) outcome" where
  "radix_literal isd base s =
     (let body = (case s of c # cs \<Rightarrow> if c = CHR ''_'' then cs else s | [] \<Rightarrow> s)
      in case body of
           [] \<Rightarrow> Raises SyntaxError
         | c # cs \<Rightarrow>
             if \<not> isd c then Raises SyntaxError
             else (case digitpart isd [] body of
                     None \<Rightarrow> Raises SyntaxError
                   | Some (ds, rest) \<Rightarrow> number_end rest (CInt (digits_value base ds), rest)))"

text \<open>
  The float nearest to \<open>d * 10 ^ e\<close>: Python converts a decimal literal with correct
  rounding, and a literal beyond the largest double is \<^verbatim>\<open>inf\<close>.
\<close>

definition decimal_float :: "int \<Rightarrow> int \<Rightarrow> pyfloat" where
  "decimal_float d e = (if 0 \<le> e then round64 (d * 10 ^ nat e) 1 else round64 d (10 ^ nat (- e)))"

text \<open>
  The exponent of a float literal, read at the character after the digits and the
  fraction: the exponent's value and the rest of the line. Without an exponent the
  value is \<open>None\<close>. An \<^verbatim>\<open>e\<close> that no digit follows ends the number.
\<close>

definition exponent_part :: "string \<Rightarrow> (int option \<times> string) outcome" where
  "exponent_part s =
     (case s of
        [] \<Rightarrow> Returns (None, s)
      | c # cs \<Rightarrow>
          if c = CHR ''e'' \<or> c = CHR ''E'' then
            (case cs of
               [] \<Rightarrow> Returns (None, s)
             | d # ds \<Rightarrow>
                 if d = CHR ''+'' \<or> d = CHR ''-'' then
                   (case ds of
                      [] \<Rightarrow> Raises SyntaxError
                    | x # xs \<Rightarrow>
                        if is_digit x then
                          (case digitpart is_digit [] ds of
                             None \<Rightarrow> Raises SyntaxError
                           | Some (es, rest) \<Rightarrow>
                               Returns (Some ((if d = CHR ''-'' then - 1 else 1) * digits_value 10 es), rest))
                        else Raises SyntaxError)
                 else if is_digit d then
                   (case digitpart is_digit [] cs of
                      None \<Rightarrow> Raises SyntaxError
                    | Some (es, rest) \<Rightarrow> Returns (Some (digits_value 10 es), rest))
                 else Returns (None, s))
          else Returns (None, s))"

text \<open>
  The end of a decimal literal with integer digits \<open>ds\<close>, fraction digits \<open>fs\<close> (\<open>None\<close>
  when there is no decimal point) and the rest of the line at the exponent. A literal
  without point and exponent is an integer: it must not have a non-zero digit after a
  leading zero, and the model leaves aside integers of more than 4300 digits, which
  Python accepts or not according to its version.
\<close>

definition decimal_end :: "string \<Rightarrow> string option \<Rightarrow> string \<Rightarrow> (constant_value \<times> string) outcome" where
  "decimal_end ds fs s =
     bind_outcome (exponent_part s) (\<lambda>(ex, rest).
       let is_float = (fs \<noteq> None \<or> ex \<noteq> None);
           frac = (case fs of None \<Rightarrow> [] | Some f \<Rightarrow> f);
           x = decimal_float (digits_value 10 (ds @ frac))
                 ((case ex of None \<Rightarrow> 0 | Some e \<Rightarrow> e) - int (length frac))
       in case rest of
            [] \<Rightarrow>
              (if is_float then Returns (CFloat x, rest)
               else if hd ds = CHR ''0'' \<and> (\<exists>d \<in> set ds. d \<noteq> CHR ''0'') then Raises SyntaxError
               else if 4300 < length ds then Unmodelled
               else Returns (CInt (digits_value 10 ds), rest))
          | c # cs \<Rightarrow>
              if c = CHR ''j'' \<or> c = CHR ''J'' then number_end cs (CImag x, cs)
              else if is_float then number_end rest (CFloat x, rest)
              else if hd ds = CHR ''0'' \<and> (\<exists>d \<in> set ds. d \<noteq> CHR ''0'') then Raises SyntaxError
              else if 4300 < length ds then Unmodelled
              else number_end rest (CInt (digits_value 10 ds), rest))"

text \<open>A numeric literal at the head of \<open>s\<close>, which starts with a digit, or with a period
  and a digit.\<close>

definition scan_number :: "string \<Rightarrow> (constant_value \<times> string) outcome" where
  "scan_number s =
     (case s of
        [] \<Rightarrow> Raises SyntaxError
      | c # cs \<Rightarrow>
          if c = CHR ''.'' then
            (case digitpart is_digit [] cs of
               None \<Rightarrow> Raises SyntaxError
             | Some (fs, rest) \<Rightarrow> decimal_end [] (Some fs) rest)
          else if c = CHR ''0'' \<and> cs \<noteq> [] \<and> hd cs \<in> set ''xX'' then radix_literal is_hexdigit 16 (tl cs)
          else if c = CHR ''0'' \<and> cs \<noteq> [] \<and> hd cs \<in> set ''oO'' then radix_literal is_octdigit 8 (tl cs)
          else if c = CHR ''0'' \<and> cs \<noteq> [] \<and> hd cs \<in> set ''bB'' then radix_literal is_bindigit 2 (tl cs)
          else
            (case digitpart is_digit [] s of
               None \<Rightarrow> Raises SyntaxError
             | Some (ds, rest) \<Rightarrow>
                 (case rest of
                    [] \<Rightarrow> decimal_end ds None rest
                  | d # r \<Rightarrow>
                      if d = CHR ''.'' then
                        (if r \<noteq> [] \<and> is_digit (hd r) then
                           (case digitpart is_digit [] r of
                              None \<Rightarrow> Raises SyntaxError
                            | Some (fs, rest') \<Rightarrow> decimal_end ds (Some fs) rest')
                         else decimal_end ds (Some []) r)
                      else decimal_end ds None rest)))"

text \<open>The keywords of Python 3.8 to 3.13 (\<^verbatim>\<open>keyword.kwlist\<close>).\<close>

definition kwlist :: "string list" where
  "kwlist =
     [''False'', ''None'', ''True'', ''and'', ''as'', ''assert'', ''async'', ''await'',
      ''break'', ''class'', ''continue'', ''def'', ''del'', ''elif'', ''else'', ''except'',
      ''finally'', ''for'', ''from'', ''global'', ''if'', ''import'', ''in'', ''is'',
      ''lambda'', ''nonlocal'', ''not'', ''or'', ''pass'', ''raise'', ''return'', ''try'',
      ''while'', ''with'', ''yield'']"

text \<open>
  An identifier. One that a quote follows at once is a string prefix, and a keyword
  other than \<^verbatim>\<open>True\<close>, \<^verbatim>\<open>False\<close> and \<^verbatim>\<open>None\<close> starts syntax outside the fragment.
\<close>

definition scan_name :: "string \<Rightarrow> (token \<times> string) outcome" where
  "scan_name s =
     (let n = takeWhile is_ident_char s; rest = dropWhile is_ident_char s
      in if rest \<noteq> [] \<and> hd rest \<in> set [CHR 0x27, CHR 0x22] then Unmodelled
         else if n \<in> set kwlist \<and> n \<notin> set [''True'', ''False'', ''None''] then Unmodelled
         else Returns (NAME n, rest))"

text \<open>A string literal opened by the quote \<open>q\<close>; \<open>s\<close> is the text after the quote.\<close>

definition scan_string :: "char \<Rightarrow> string \<Rightarrow> (token \<times> string) outcome" where
  "scan_string q s =
     (let body = takeWhile (\<lambda>c. c \<noteq> q) s; rest = dropWhile (\<lambda>c. c \<noteq> q) s
      in if CHR 0x5C \<in> set body then Unmodelled
         else if rest = [] then Raises SyntaxError
         else if body = [] \<and> tl rest \<noteq> [] \<and> hd (tl rest) = q then Unmodelled
         else Returns (STRING body, tl rest))"

definition operators3 :: "string list" where
  "operators3 = [''**='', ''//='', ''>>='', ''<<='', ''...'']"

definition operators2 :: "string list" where
  "operators2 =
     [''**'', ''//'', ''>>'', ''<<'', ''<='', ''>='', ''=='', ''!='', ''->'', '':='',
      ''+='', ''-='', ''*='', ''/='', ''%='', ''&='', ''|='', ''^='', ''@='', ''<>'']"

definition operators1 :: "string" where
  "operators1 = ''+-*/%@&|^~<>()[]{},:.;=''"

text \<open>The longest operator at the head of the line; a character that starts no token
  is a syntax error.\<close>

definition scan_operator :: "string \<Rightarrow> (token \<times> string) outcome" where
  "scan_operator s =
     (if take 3 s \<in> set operators3 then Returns (OP (take 3 s), drop 3 s)
      else if take 2 s \<in> set operators2 then Returns (OP (take 2 s), drop 2 s)
      else if s \<noteq> [] \<and> hd s \<in> set operators1 then Returns (OP [hd s], tl s)
      else Raises SyntaxError)"

definition next_token :: "string \<Rightarrow> (token \<times> string) outcome" where
  "next_token s =
     (case s of
        [] \<Rightarrow> Raises SyntaxError
      | c # cs \<Rightarrow>
          if is_digit c \<or> (c = CHR ''.'' \<and> cs \<noteq> [] \<and> is_digit (hd cs)) then
            bind_outcome (scan_number s) (\<lambda>(v, rest). Returns (NUMBER v, rest))
          else if is_ident_start c then scan_name s
          else if c = CHR 0x27 \<or> c = CHR 0x22 then scan_string c cs
          else if c = CHR 0x5C then Unmodelled
          else scan_operator s)"

lemma bind_outcome_cong [fundef_cong]:
  "m = m' \<Longrightarrow> (\<And>v. m' = Returns v \<Longrightarrow> f v = f' v) \<Longrightarrow> bind_outcome m f = bind_outcome m' f'"
  by (simp add: bind_outcome_def split: outcome.splits)

text \<open>The tokens of a line; a comment runs to its end.\<close>

function tokenize :: "string \<Rightarrow> token list outcome" where
  "tokenize s =
     (case s of
        [] \<Rightarrow> Returns []
      | c # cs \<Rightarrow>
          if is_blank c then tokenize cs
          else if c = CHR ''#'' then Returns []
          else bind_outcome (next_token s) (\<lambda>(t, rest).
                 if length rest < length s
                 then bind_outcome (tokenize rest) (\<lambda>ts. Returns (t # ts))
                 else Unmodelled))"
  by pat_completeness auto
termination
  by (relation "measure length") auto

declare tokenize.simps [simp del]


section \<open>Python's expression grammar on the modelled tokens\<close>

text \<open>
  The part of Python's grammar that the modelled tokens can form:
  \<^verbatim>\<open>
  eval_input: expression (',' expression)* [',']
  expression: bitwise_or
  bitwise_or: bitwise_or '|' bitwise_xor | bitwise_xor
  bitwise_xor: bitwise_xor '^' bitwise_and | bitwise_and
  bitwise_and: bitwise_and '&' shift_expr | shift_expr
  shift_expr: shift_expr ('<<' | '>>') sum | sum
  sum: sum ('+' | '-') term | term
  term: term ('*' | '/' | '//' | '%' | '@') factor | factor
  factor: ('+' | '-' | '~') factor | power
  power: primary ['**' factor]
  primary: primary '.' NAME | primary '(' [arguments] ')' | atom
  atom: NAME | NUMBER | STRING+ | '(' expression ')' | tuple
  \<close>
  A goal names the nonterminal to read at the head of the token list. The binary levels
  are numbered from \<open>0\<close> (\<^verbatim>\<open>bitwise_or\<close>) to \<open>5\<close> (\<^verbatim>\<open>term\<close>); \<open>Loop l acc\<close> continues a
  left-associative chain of level \<open>l\<close> whose operands so far form \<open>acc\<close>. Parentheses
  leave no node. Of a call, an attribute reference or a tuple the tree keeps the class
  only, which is all that \<^verbatim>\<open>_eval\<close> reads of them.
\<close>

datatype goal =
  Expr nat
  | Loop nat node
  | Factor
  | Power
  | Primary
  | Trailers node
  | Atom
  | Args bool
  | Items
  | Top_items

definition binary_operators :: "nat \<Rightarrow> (string \<times> operator) list" where
  "binary_operators l =
     (if l = 0 then [(''|'', BitOr)]
      else if l = 1 then [(''^'', BitXor)]
      else if l = 2 then [(''&'', BitAnd)]
      else if l = 3 then [(''<<'', LShift), (''>>'', RShift)]
      else if l = 4 then [(''+'', Add), (''-'', Sub)]
      else if l = 5 then
        [(''*'', Mult), (''/'', Div), (''//'', FloorDiv), (''%'', Mod), (''@'', MatMult)]
      else [])"

definition unary_operators :: "(string \<times> unaryop) list" where
  "unary_operators = [(''+'', UAdd), (''-'', USub), (''~'', Invert)]"

fun rank :: "goal \<Rightarrow> nat" where
  "rank (Expr l) = (if l < 6 then 20 - l else 10)"
| "rank (Loop l acc) = 0"
| "rank Factor = 9"
| "rank Power = 8"
| "rank Primary = 7"
| "rank (Trailers acc) = 0"
| "rank Atom = 6"
| "rank (Args seen) = 30"
| "rank Items = 30"
| "rank Top_items = 30"

definition is_op :: "string \<Rightarrow> token list \<Rightarrow> bool" where
  "is_op s ts = (ts \<noteq> [] \<and> hd ts = OP s)"

fun is_string :: "token \<Rightarrow> bool" where
  "is_string (STRING s) = True"
| "is_string t = False"

fun string_of :: "token \<Rightarrow> string" where
  "string_of (STRING s) = s"
| "string_of t = []"

definition name_atom :: "string \<Rightarrow> node" where
  "name_atom n =
     (if n = ''True'' then Constant (CBool True)
      else if n = ''False'' then Constant (CBool False)
      else if n = ''None'' then Constant CNone
      else Other Name)"

text \<open>
  The guards \<open>length r < length ts\<close> make the recursion well-founded; a parse that
  succeeds has read at least one token, so the branch \<open>Unmodelled\<close> behind a guard is
  never taken.
\<close>

function parse :: "goal \<Rightarrow> token list \<Rightarrow> (node \<times> token list) outcome" where
  "parse (Expr l) ts =
     (if 6 \<le> l then parse Factor ts
      else bind_outcome (parse (Expr (Suc l)) ts) (\<lambda>(lhs, r).
             if length r < length ts then parse (Loop l lhs) r else Unmodelled))"
| "parse (Loop l acc) ts =
     (case ts of
        OP s # rest \<Rightarrow>
          (case map_of (binary_operators l) s of
             None \<Rightarrow> Returns (acc, ts)
           | Some bop \<Rightarrow>
               bind_outcome (parse (Expr (Suc l)) rest) (\<lambda>(rhs, r).
                 if length r < length ts then parse (Loop l (BinOp acc bop rhs)) r
                 else Unmodelled))
      | _ \<Rightarrow> Returns (acc, ts))"
| "parse Factor ts =
     (case ts of
        OP s # rest \<Rightarrow>
          (case map_of unary_operators s of
             None \<Rightarrow> parse Power ts
           | Some uop \<Rightarrow>
               bind_outcome (parse Factor rest) (\<lambda>(operand, r). Returns (UnaryOp uop operand, r)))
      | _ \<Rightarrow> parse Power ts)"
| "parse Power ts =
     bind_outcome (parse Primary ts) (\<lambda>(base, r).
       if is_op ''**'' r then
         (if length r \<le> length ts
          then bind_outcome (parse Factor (tl r)) (\<lambda>(e, r'). Returns (BinOp base Pow_op e, r'))
          else Unmodelled)
       else Returns (base, r))"
| "parse Primary ts =
     bind_outcome (parse Atom ts) (\<lambda>(a, r).
       if length r < length ts then parse (Trailers a) r else Unmodelled)"
| "parse (Trailers acc) ts =
     (if is_op ''.'' ts then
        (case tl ts of
           NAME n # rest \<Rightarrow> parse (Trailers (Other Attribute)) rest
         | _ \<Rightarrow> Raises SyntaxError)
      else if is_op ''('' ts then
        bind_outcome (parse (Args False) (tl ts)) (\<lambda>(c, r).
          if length r < length ts then parse (Trailers (Other Call)) r else Unmodelled)
      else Returns (acc, ts))"
| "parse Atom ts =
     (case ts of
        [] \<Rightarrow> Raises SyntaxError
      | NUMBER c # rest \<Rightarrow> Returns (Constant c, rest)
      | NAME n # rest \<Rightarrow> Returns (name_atom n, rest)
      | STRING s # rest \<Rightarrow>
          Returns (Constant (CStr (s @ concat (map string_of (takeWhile is_string rest)))),
                   dropWhile is_string rest)
      | OP s # rest \<Rightarrow>
          if s \<noteq> ''('' then Raises SyntaxError
          else if is_op '')'' rest then Returns (Other Tuple, tl rest)
          else if is_op ''*'' rest then
            bind_outcome (parse (Expr 0) (tl rest)) (\<lambda>(e, r).
              if is_op '','' r \<and> length r < length ts then parse Items (tl r)
              else Raises SyntaxError)
          else
            bind_outcome (parse (Expr 0) rest) (\<lambda>(e, r).
              if is_op '')'' r then Returns (e, tl r)
              else if is_op '','' r \<and> length r < length ts then parse Items (tl r)
              else Raises SyntaxError))"
| "parse (Args seen) ts =
     (if is_op '')'' ts then Returns (Other Call, tl ts)
      else if is_op ''**'' ts then
        bind_outcome (parse (Expr 0) (tl ts)) (\<lambda>(e, r).
          if is_op '')'' r then Returns (Other Call, tl r)
          else if is_op '','' r \<and> length r < length ts then parse (Args True) (tl r)
          else Raises SyntaxError)
      else if seen then Raises SyntaxError
      else
        bind_outcome (parse (Expr 0) (if is_op ''*'' ts then tl ts else ts)) (\<lambda>(e, r).
          if is_op '')'' r then Returns (Other Call, tl r)
          else if is_op '','' r \<and> length r < length ts then parse (Args False) (tl r)
          else Raises SyntaxError))"
| "parse Items ts =
     (if is_op '')'' ts then Returns (Other Tuple, tl ts)
      else
        bind_outcome (parse (Expr 0) (if is_op ''*'' ts then tl ts else ts)) (\<lambda>(e, r).
          if is_op '')'' r then Returns (Other Tuple, tl r)
          else if is_op '','' r \<and> length r < length ts then parse Items (tl r)
          else Raises SyntaxError))"
| "parse Top_items ts =
     (if ts = [] then Returns (Other Tuple, [])
      else
        bind_outcome (parse (Expr 0) ts) (\<lambda>(e, r).
          if r = [] then Returns (Other Tuple, [])
          else if is_op '','' r \<and> length r < length ts then parse Top_items (tl r)
          else Raises SyntaxError))"
  by pat_completeness auto
termination
  by (relation "measure (\<lambda>(g, ts). 40 * length ts + rank g)")
    (auto simp: is_op_def neq_Nil_conv)

declare parse.simps [simp del]

text \<open>The tokens from which the grammar above is built.\<close>

definition modelled_operators :: "string list" where
  "modelled_operators =
     [''+'', ''-'', ''*'', ''**'', ''/'', ''//'', ''%'', ''@'', ''<<'', ''>>'', ''&'', ''|'',
      ''^'', ''~'', ''('', '')'', ''.'', '','']"

fun modelled_token :: "token \<Rightarrow> bool" where
  "modelled_token (OP s) = (s \<in> set modelled_operators)"
| "modelled_token t = True"

text \<open>
  The whole input as an expression. A semicolon belongs to no expression, whatever
  surrounds it.
\<close>

definition eval_input :: "token list \<Rightarrow> node outcome" where
  "eval_input ts =
     (if OP '';'' \<in> set ts then Raises SyntaxError
      else if \<not> list_all modelled_token ts then Unmodelled
      else bind_outcome (parse (Expr 0) ts) (\<lambda>(e, r).
             if r = [] then Returns e
             else if is_op '','' r then bind_outcome (parse Top_items (tl r)) (\<lambda>(t, r'). Returns t)
             else Raises SyntaxError))"

text \<open>
  \<^verbatim>\<open>ast.parse(s, mode="eval")\<close>. Indented input and characters outside the fragment are
  left aside.
\<close>

definition ast_parse :: "string \<Rightarrow> node outcome" where
  "ast_parse s =
     (if \<not> list_all modelled_char s then Unmodelled
      else if s \<noteq> [] \<and> is_blank (hd s) then Unmodelled
      else bind_outcome (tokenize s) (\<lambda>ts.
             bind_outcome (eval_input ts) (\<lambda>body. Returns (Expression body))))"


section \<open>The evaluator\<close>

text \<open>
  The characters that \<^verbatim>\<open>str.strip()\<close> removes and that \<^verbatim>\<open>\s\<close> matches, among the code
  points below 256: tab, line feed, vertical tab, form feed, carriage return, the four
  separators \<open>0x1C\<close> to \<open>0x1F\<close>, space, \<open>0x85\<close> and \<open>0xA0\<close>.
\<close>

definition is_space :: "char \<Rightarrow> bool" where
  "is_space c =
     (c \<in> set [CHR 0x09, CHR 0x0A, CHR 0x0B, CHR 0x0C, CHR 0x0D, CHR 0x1C, CHR 0x1D, CHR 0x1E,
                CHR 0x1F, CHR 0x20, CHR 0x85, CHR 0xA0])"

definition strip :: "string \<Rightarrow> string" where
  "strip s = rev (dropWhile is_space (rev (dropWhile is_space s)))"

text \<open>
  \<^verbatim>\<open>safe_eval_expr\<close> (lines 90 to 132): strip, refuse the empty string, parse, turn a
  \<^verbatim>\<open>SyntaxError\<close> into the \<^verbatim>\<open>ValueError\<close> "Invalid expression: ...", and evaluate the
  tree. Every other exception passes through.
\<close>

definition safe_eval_expr :: "string \<Rightarrow> pyvalue outcome" where
  "safe_eval_expr expr =
     (let expr = strip expr
      in if expr = [] then Raises (ValueError Empty_expression)
         else case ast_parse expr of
                Raises e \<Rightarrow>
                  if e = SyntaxError then Raises (ValueError Invalid_expression) else Raises e
              | Unmodelled \<Rightarrow> Unmodelled
              | Returns node \<Rightarrow> eval_node node)"

section \<open>The dispatcher\<close>

























section \<open>Notions used to state the properties\<close>











section \<open>Properties of the evaluator\<close>


lemma strip_all_space: "list_all is_space s \<Longrightarrow> strip s = []"
proof -
  assume "list_all is_space s"
  then have "dropWhile is_space s = []"
    by (simp add: list_all_iff)
  then show ?thesis
    by (simp only: strip_def rev.simps dropWhile.simps)
qed


text \<open>
  C5. An input that is empty or consists of whitespace only fails with the
  \<^verbatim>\<open>ValueError\<close> "Empty expression": after stripping nothing is left.
\<close>

theorem empty_expression:
  "list_all is_space s \<Longrightarrow> safe_eval_expr s = Raises (ValueError Empty_expression)"
  by (simp add: safe_eval_expr_def strip_all_space)

theorem empty_expression_witness:
  "list_all is_space ''   '' \<and> safe_eval_expr ''   '' = Raises (ValueError Empty_expression)
   \<and> safe_eval_expr [] = Raises (ValueError Empty_expression)"
  using empty_expression [of "''   ''"] empty_expression [of "[]"]
  by (simp add: is_space_def)

































subsection \<open>The parser on the customary notation\<close>
































end
